theory Spec2Isabelle
  imports Main
begin

section \<open>Python values, exceptions and the outside world\<close>

text \<open>
  The values that \<^verbatim>\<open>pleroma.py\<close> handles are the ones \<^verbatim>\<open>json.loads\<close> produces, together
  with the strings and \<^verbatim>\<open>None\<close> its callers pass in: \<^verbatim>\<open>None\<close> is \<open>JNull\<close>, a \<^verbatim>\<open>dict\<close> is
  \<open>JObj\<close> over an association list whose keys are distinct (looked up with \<open>map_of\<close>).
  Floating-point numbers are left out; nothing below computes with numbers.
\<close>

datatype json =
    JNull
  | JBool bool
  | JNum int
  | JStr string
  | JArr "json list"
  | JObj "(string \<times> json) list"

text \<open>
  The three exception classes of the module (lines 17 to 24), the builtin exceptions its
  expressions raise, and \<open>LibraryError\<close> for whatever a library call raises by itself
  (a connection failure in aiohttp, a \<^verbatim>\<open>ParserError\<close> of dateutil, a content-type error).
\<close>

datatype exn =
    BadRequest json
  | LoginFailed json
  | BadResponse json
  | RuntimeError string
  | ValueError "string list"
  | KeyError string
  | TypeError
  | AttributeError
  | AssertionError
  | JSONDecodeError
  | RecursionError
  | LibraryError string

text \<open>\<^verbatim>\<open>obj[key]\<close> with a string key: only a dict can be subscripted by a string.\<close>

fun getitem :: "json \<Rightarrow> string \<Rightarrow> exn + json" where
  "getitem (JObj kvs) k = (case map_of kvs k of None \<Rightarrow> Inl (KeyError k) | Some v \<Rightarrow> Inr v)"
| "getitem _ k = Inl TypeError"

text \<open>Truth value of a Python object, as \<^verbatim>\<open>if x:\<close> tests it.\<close>

fun truthy :: "json \<Rightarrow> bool" where
  "truthy JNull = False"
| "truthy (JBool b) = b"
| "truthy (JNum n) = (n \<noteq> 0)"
| "truthy (JStr s) = (s \<noteq> [])"
| "truthy (JArr xs) = (xs \<noteq> [])"
| "truthy (JObj kvs) = (kvs \<noteq> [])"

text \<open>
  A \<^verbatim>\<open>datetime\<close> is naive or timezone-aware; an aware one names an instant, counted here in
  whole ticks of the clock. Subtracting an aware datetime from a naive one raises
  \<^verbatim>\<open>TypeError\<close>.
\<close>

datatype datetime = Naive int | Aware int

text \<open>
  An aiohttp response as the module reads it: the status, the header lookup
  \<^verbatim>\<open>resp.headers.get(name)\<close>, and the outcome of \<^verbatim>\<open>await resp.json()\<close>.
\<close>

record response =
  status :: int
  headers :: "string \<rightharpoonup> string"
  json_body :: "exn + json"

text \<open>
  The positional and keyword arguments a request is issued with. The rate-limit layer
  stores them and passes the same objects again on every attempt, so a keyword argument
  is either a plain value or an object with a state of its own: \<open>Body i\<close> is a body that
  can be read once, such as the form data around an open file that \<^verbatim>\<open>upload\<close> builds
  (lines 174 to 199), named by \<open>i\<close>.
\<close>

datatype arg = Val json | Body nat

record request_args =
  meth :: string
  url :: string
  kwargs :: "(string \<times> arg) list"

fun arg_bodies :: "arg \<Rightarrow> nat list" where
  "arg_bodies (Val v) = []"
| "arg_bodies (Body i) = [i]"

definition bodies :: "request_args \<Rightarrow> nat list" where
  "bodies rq = concat (map (\<lambda>(k, a). arg_bodies a) (kwargs rq))"

datatype outcome = Failed exn | Response response

datatype WSMsgType = TEXT | BINARY | PING | PONG | ERROR

datatype WSMessage = WSMessage (msg_type: WSMsgType) (msg_data: string)

text \<open>
  What the code does to the outside world, in order: a request handed to the HTTP
  session, with its arguments and those of its one-shot bodies that an earlier request
  has read already; a call of \<^verbatim>\<open>anyio.sleep\<close>, with the reading of the clock when it
  returns; the release of the current response (\<^verbatim>\<open>__aexit__\<close> of the request context
  manager).
\<close>

datatype event = Sent request_args "nat list" | Slept int | Released

fun is_sent :: "event \<Rightarrow> bool" where
  "is_sent (Sent _ _) = True"
| "is_sent _ = False"

text \<open>
  The state: the clock, what has happened so far, the one-shot bodies that have been
  read, and the cached \<^verbatim>\<open>_logged_in_id\<close> of the client.
\<close>

record state =
  now :: int
  trace :: "event list"
  spent :: "nat set"
  logged_in_id :: json

definition sent_count :: "state \<Rightarrow> nat" where
  "sent_count s = length (filter is_sent (trace s))"

text \<open>
  The libraries the module calls are parameters: the outcome of the \<open>n\<close>-th request sent
  through the session, \<^verbatim>\<open>dateutil.parser.parse\<close>, \<^verbatim>\<open>json.loads\<close> (\<open>None\<close> when it raises
  \<^verbatim>\<open>JSONDecodeError\<close>), the frames a websocket delivers before it closes,
  \<^verbatim>\<open>yarl.URL(...).host\<close> and the salted SHA-256 test of the host against the blocklist.
  The interpreter's stack is a parameter too: \<open>stack_room\<close> is the number of nested calls
  of \<^verbatim>\<open>__aenter__\<close>, beyond the first nested one, that fit on it before a call raises
  \<^verbatim>\<open>RecursionError\<close> (about 492 for a caller near the bottom of a stack with the default
  limit of a thousand frames; one nested call, two frames, is taken to fit always).
\<close>

record env =
  stack_room :: nat
  http_request :: "nat \<Rightarrow> request_args \<Rightarrow> outcome"
  parsedate :: "string \<Rightarrow> exn + datetime"
  loads :: "string \<Rightarrow> json option"
  ws_connect :: "string \<Rightarrow> exn + WSMessage list"
  url_host :: "string \<Rightarrow> string option"
  host_denied :: "string \<Rightarrow> bool"

section \<open>The rate-limit layer (lines 26 to 56)\<close>

text \<open>
  \<^verbatim>\<open>anyio.sleep(d)\<close> returns once \<open>d\<close> ticks have passed, at once when \<open>d\<close> is not positive
  (the asyncio backend). \<^verbatim>\<open>sleep_until(dt)\<close> subtracts the aware \<^verbatim>\<open>datetime.now(timezone.utc)\<close>
  from \<open>dt\<close>.
\<close>

definition anyio_sleep :: "int \<Rightarrow> state \<Rightarrow> state" where
  "anyio_sleep d s =
     s\<lparr>now := now s + max 0 d, trace := trace s @ [Slept (now s + max 0 d)]\<rparr>"

definition sleep_until :: "datetime \<Rightarrow> state \<Rightarrow> exn + state" where
  "sleep_until dt s =
     (case dt of
        Naive t \<Rightarrow> Inl TypeError
      | Aware t \<Rightarrow> Inr (anyio_sleep (t - now s) s))"

text \<open>
  Entering the request context manager sends the request: the session reads the bodies
  among the arguments, and what it finds of a body that was read before is not what the
  first reader found.
\<close>

definition stale :: "request_args \<Rightarrow> state \<Rightarrow> nat list" where
  "stale rq s = filter (\<lambda>i. i \<in> spent s) (bodies rq)"

definition send :: "request_args \<Rightarrow> state \<Rightarrow> state" where
  "send rq s =
     s\<lparr>trace := trace s @ [Sent rq (stale rq s)], spent := spent s \<union> set (bodies rq)\<rparr>"

definition aexit :: "state \<Rightarrow> state" where
  "aexit s = s\<lparr>trace := trace s @ [Released]\<rparr>"

definition limited :: "response \<Rightarrow> bool" where
  "limited resp = (headers resp ''X-RateLimit-Remaining'' \<in> {Some ''0'', Some ''1''})"

text \<open>
  \<^verbatim>\<open>_RateLimitContextManager.__aenter__\<close> with \<^verbatim>\<open>_do_enter\<close>, which call each other: one
  unfolding builds the request context manager from the stored arguments, enters it
  (the request is sent), and either returns the response or sleeps, releases the response
  and calls \<^verbatim>\<open>__aenter__\<close> again (line 53). Each retry is a call nested in the one before,
  so the depth of the retries is bounded by the room on the stack: \<open>room\<close> counts the
  nested calls that still fit, and the call that does not fit raises \<^verbatim>\<open>RecursionError\<close>
  before it sends anything.
\<close>

fun do_enter ::
  "env \<Rightarrow> request_args \<Rightarrow> nat \<Rightarrow> state \<Rightarrow> (exn + response) \<times> state" where
  "do_enter E rq room s =
     (case http_request E (sent_count s) rq of
        Failed e \<Rightarrow> (Inl e, send rq s)
      | Response resp \<Rightarrow>
          if \<not> limited resp then (Inr resp, send rq s)
          else (case headers resp ''X-RateLimit-Reset'' of
                  None \<Rightarrow> (Inl (KeyError ''X-RateLimit-Reset''), send rq s)
                | Some v \<Rightarrow>
                    (case parsedate E v of
                       Inl e \<Rightarrow> (Inl e, send rq s)
                     | Inr dt \<Rightarrow>
                         (case sleep_until dt (send rq s) of
                            Inl e \<Rightarrow> (Inl e, send rq s)
                          | Inr s' \<Rightarrow>
                              (case room of
                                 0 \<Rightarrow> (Inl RecursionError, aexit s')
                               | Suc room' \<Rightarrow> do_enter E rq room' (aexit s'))))))"

text \<open>The call that the \<^verbatim>\<open>async with\<close> statement makes, with the whole of the room below it.\<close>

definition aenter :: "env \<Rightarrow> request_args \<Rightarrow> state \<Rightarrow> (exn + response) \<times> state" where
  "aenter E rq s = do_enter E rq (Suc (stack_room E)) s"

section \<open>The client (lines 102 to 153)\<close>

text \<open>
  The fields \<^verbatim>\<open>__init__\<close> stores. The cached \<^verbatim>\<open>_logged_in_id\<close> is the one field that is
  assigned later, so it lives in the state; its initial value is \<^verbatim>\<open>None\<close>.
\<close>

record client =
  api_base_url :: string
  access_token :: string

definition initial :: "int \<Rightarrow> state" where
  "initial t = \<lparr>now = t, trace = [], spent = {}, logged_in_id = JNull\<rparr>"

text \<open>The body of the \<^verbatim>\<open>async with\<close> block of \<^verbatim>\<open>Pleroma.request\<close> (lines 130 to 135).\<close>

definition on_response :: "response \<Rightarrow> exn + json" where
  "on_response resp =
     (if status resp = 400 then
        (case json_body resp of
           Inl e \<Rightarrow> Inl e
         | Inr body \<Rightarrow>
             (case getitem body ''error'' of
                Inl e \<Rightarrow> Inl e
              | Inr msg \<Rightarrow> Inl (BadRequest msg)))
      else if status resp = 500 then
        (case json_body resp of
           Inl e \<Rightarrow> Inl e
         | Inr body \<Rightarrow> Inl (BadResponse body))
      else json_body resp)"

text \<open>
  \<^verbatim>\<open>Pleroma.request\<close>: the blocklist test, then the request through the rate-limit layer.
  When \<^verbatim>\<open>__aenter__\<close> raises, the block is not entered and \<^verbatim>\<open>__aexit__\<close> is not called;
  otherwise the response is released on the way out, whatever the block did.
\<close>

definition request ::
  "env \<Rightarrow> client \<Rightarrow> string \<Rightarrow> string \<Rightarrow> (string \<times> arg) list \<Rightarrow> state
     \<Rightarrow> (exn + json) \<times> state" where
  "request E c m path kw s =
     (case url_host E (api_base_url c) of
        None \<Rightarrow> (Inl AttributeError, s)
      | Some h \<Rightarrow>
          if host_denied E h then (Inl (RuntimeError ''stop being a chud''), s)
          else
            (case aenter E \<lparr>meth = m, url = api_base_url c @ path, kwargs = kw\<rparr> s of
               (Inl e, s') \<Rightarrow> (Inl e, s')
             | (Inr resp, s') \<Rightarrow> (on_response resp, aexit s')))"

definition verify_credentials :: "env \<Rightarrow> client \<Rightarrow> state \<Rightarrow> (exn + json) \<times> state" where
  "verify_credentials E c s = request E c ''GET'' ''/api/v1/accounts/verify_credentials'' [] s"

text \<open>
  \<^verbatim>\<open>_get_logged_in_id\<close>: only \<^verbatim>\<open>KeyError\<close> is caught and turned into \<^verbatim>\<open>LoginFailed\<close>; the
  assignment happens before the return.
\<close>

definition get_logged_in_id :: "env \<Rightarrow> client \<Rightarrow> state \<Rightarrow> (exn + json) \<times> state" where
  "get_logged_in_id E c s =
     (if logged_in_id s \<noteq> JNull then (Inr (logged_in_id s), s)
      else
        (case verify_credentials E c s of
           (Inl e, s') \<Rightarrow> (Inl e, s')
         | (Inr me, s') \<Rightarrow>
             (case getitem me ''id'' of
                Inl (KeyError k) \<Rightarrow> (Inl (LoginFailed me), s')
              | Inl e \<Rightarrow> (Inl e, s')
              | Inr v \<Rightarrow> (Inr v, s'\<lparr>logged_in_id := v\<rparr>))))"

section \<open>Posting (lines 159 to 228)\<close>

fun unpack_id :: "json \<Rightarrow> json" where
  "unpack_id (JObj kvs) = (case map_of kvs ''id'' of Some v \<Rightarrow> v | None \<Rightarrow> JObj kvs)"
| "unpack_id obj = obj"

text \<open>\<^verbatim>\<open>d[k] = v\<close> on a dict: the value is replaced in place or the key is added last.\<close>

fun setitem :: "(string \<times> json) list \<Rightarrow> string \<Rightarrow> json \<Rightarrow> (string \<times> json) list" where
  "setitem [] k v = [(k, v)]"
| "setitem ((k', v') # kvs) k v =
     (if k' = k then (k, v) # kvs else (k', v') # setitem kvs k v)"

definition visibilities :: "string option set" where
  "visibilities = {None, Some ''private'', Some ''public'', Some ''unlisted'', Some ''direct''}"

text \<open>The dict \<^verbatim>\<open>data\<close> as \<^verbatim>\<open>post\<close> builds it before it looks at \<^verbatim>\<open>files\<close> (lines 202 to 214).\<close>

definition post_data ::
  "json \<Rightarrow> json \<Rightarrow> json \<Rightarrow> string option \<Rightarrow> exn + (string \<times> json) list" where
  "post_data content in_reply_to_id cw visibility =
     (if visibility \<notin> visibilities then
        Inl (ValueError (''invalid visibility'' # (case visibility of None \<Rightarrow> [] | Some v \<Rightarrow> [v])))
      else
        let data = [(''status'', content)];
            data = (if truthy (unpack_id in_reply_to_id)
                    then setitem data ''in_reply_to_id'' (unpack_id in_reply_to_id) else data);
            data = (case visibility of
                      None \<Rightarrow> data
                    | Some v \<Rightarrow> setitem data ''visibility'' (JStr v));
            data = (if truthy cw then setitem data ''spoiler_text'' cw else data)
        in Inr data)"

text \<open>
  \<^verbatim>\<open>post\<close>. The uploads of lines 216 to 224 run concurrently in a task group, which is not
  modelled: the group as a whole is the argument \<open>files\<close>, \<open>None\<close> when \<^verbatim>\<open>files\<close> is falsy
  and otherwise the step from the state before the group to the list \<^verbatim>\<open>files_uploaded\<close>
  (or the exception that leaves the group) and the state after it.
\<close>

definition post ::
  "env \<Rightarrow> client \<Rightarrow> json \<Rightarrow> json \<Rightarrow> json \<Rightarrow> string option
     \<Rightarrow> (state \<Rightarrow> (exn + json list) \<times> state) option \<Rightarrow> state
     \<Rightarrow> (exn + json) \<times> state" where
  "post E c content in_reply_to_id cw visibility files s =
     (case post_data content in_reply_to_id cw visibility of
        Inl e \<Rightarrow> (Inl e, s)
      | Inr data \<Rightarrow>
          (case files of
             None \<Rightarrow> request E c ''POST'' ''/api/v1/statuses'' [(''data'', Val (JObj data))] s
           | Some upload_all \<Rightarrow>
               (case upload_all s of
                  (Inl e, s') \<Rightarrow> (Inl e, s')
                | (Inr files_uploaded, s') \<Rightarrow>
                    if JNull \<in> set files_uploaded then (Inl AssertionError, s')
                    else request E c ''POST'' ''/api/v1/statuses''
                           [(''data'', Val (JObj (setitem data ''media_ids[]'' (JArr files_uploaded))))]
                           s')))"

section \<open>Streaming (lines 306 to 327)\<close>

text \<open>
  An asynchronous generator that has stopped: what it yielded, in order, and the exception
  that ended it, if one did. \<open>async_for\<close> is a generator whose body is a loop over another
  one: for each item the body raises, yields a value, or yields nothing; when the items run
  out, the exception that ended the inner generator, if any, ends this one.
\<close>

type_synonym 'a gen = "'a list \<times> exn option"

fun async_for :: "('a \<Rightarrow> exn + 'b option) \<Rightarrow> 'a list \<Rightarrow> exn option \<Rightarrow> 'b gen" where
  "async_for body [] fin = ([], fin)"
| "async_for body (x # xs) fin =
     (case body x of
        Inl e \<Rightarrow> ([], Some e)
      | Inr None \<Rightarrow> async_for body xs fin
      | Inr (Some y) \<Rightarrow> (case async_for body xs fin of (ys, r) \<Rightarrow> (y # ys, r)))"

text \<open>\<^verbatim>\<open>json.loads(x)\<close> on a decoded value: anything but a string is a \<^verbatim>\<open>TypeError\<close>.\<close>

definition json_loads :: "env \<Rightarrow> json \<Rightarrow> exn + json" where
  "json_loads E x =
     (case x of
        JStr doc \<Rightarrow> (case loads E doc of None \<Rightarrow> Inl JSONDecodeError | Some v \<Rightarrow> Inr v)
      | _ \<Rightarrow> Inl TypeError)"

text \<open>The body of the loop over the websocket (lines 311 to 318).\<close>

definition on_message :: "env \<Rightarrow> string option \<Rightarrow> WSMessage \<Rightarrow> exn + json option" where
  "on_message E target_event_type msg =
     (if msg_type msg = TEXT then
        (case loads E (msg_data msg) of
           None \<Rightarrow> Inl JSONDecodeError
         | Some ev \<Rightarrow>
             (case getitem ev ''event'' of
                Inl e \<Rightarrow> Inl e
              | Inr t \<Rightarrow>
                  if t = JStr ''filters_changed'' then Inr (Some ev)
                  else if target_event_type = None \<or> Some t = map_option JStr target_event_type
                  then
                    (case getitem ev ''payload'' of
                       Inl e \<Rightarrow> Inl e
                     | Inr p \<Rightarrow>
                         (case json_loads E p of
                            Inl e \<Rightarrow> Inl e
                          | Inr v \<Rightarrow> Inr (Some v)))
                  else Inr None))
      else Inr None)"

definition stream_url :: "client \<Rightarrow> string \<Rightarrow> string" where
  "stream_url c stream_name =
     api_base_url c @ ''/api/v1/streaming?stream='' @ stream_name
       @ ''&access_token='' @ access_token c"

definition stream :: "env \<Rightarrow> client \<Rightarrow> string \<Rightarrow> string option \<Rightarrow> json gen" where
  "stream E c stream_name target_event_type =
     (case ws_connect E (stream_url c stream_name) of
        Inl e \<Rightarrow> ([], Some e)
      | Inr msgs \<Rightarrow> async_for (on_message E target_event_type) msgs None)"

definition stream_notifications :: "env \<Rightarrow> client \<Rightarrow> json gen" where
  "stream_notifications E c =
     (case stream E c ''user:notification'' (Some ''notification'') of
        (notifs, fin) \<Rightarrow> async_for (\<lambda>notif. Inr (Some notif)) notifs fin)"

definition mention_body :: "json \<Rightarrow> exn + json option" where
  "mention_body notif =
     (case getitem notif ''type'' of
        Inl e \<Rightarrow> Inl e
      | Inr t \<Rightarrow> if t = JStr ''mention'' then Inr (Some notif) else Inr None)"

definition stream_mentions :: "env \<Rightarrow> client \<Rightarrow> json gen" where
  "stream_mentions E c =
     (case stream_notifications E c of
        (notifs, fin) \<Rightarrow> async_for mention_body notifs fin)"

section \<open>Vocabulary of the statements\<close>

text \<open>A request is retried when it is sent more than once before \<^verbatim>\<open>__aenter__\<close> returns.\<close>

definition retried :: "env \<Rightarrow> request_args \<Rightarrow> state \<Rightarrow> bool" where
  "retried E rq s = (sent_count s + 1 < sent_count (snd (aenter E rq s)))"

text \<open>
  The instant the \<^verbatim>\<open>X-RateLimit-Reset\<close> header names: the header is there, the parser
  accepts it, and the date it returns is timezone-aware.
\<close>

definition reset_instant :: "env \<Rightarrow> response \<Rightarrow> int option" where
  "reset_instant E resp =
     (case headers resp ''X-RateLimit-Reset'' of
        None \<Rightarrow> None
      | Some v \<Rightarrow> (case parsedate E v of Inr (Aware t) \<Rightarrow> Some t | _ \<Rightarrow> None))"



fun is_BadResponse :: "exn \<Rightarrow> bool" where
  "is_BadResponse (BadResponse _) = True"
| "is_BadResponse _ = False"

definition is_mention :: "json \<Rightarrow> bool" where
  "is_mention notif = (getitem notif ''type'' = Inr (JStr ''mention''))"

definition has_type :: "json \<Rightarrow> bool" where
  "has_type notif = (case getitem notif ''type'' of Inl _ \<Rightarrow> False | Inr _ \<Rightarrow> True)"

text \<open>A frame the loop body gets through without raising, and what it yields for it.\<close>

definition frame_ok :: "env \<Rightarrow> string option \<Rightarrow> WSMessage \<Rightarrow> bool" where
  "frame_ok E target_event_type msg =
     (case on_message E target_event_type msg of Inl e \<Rightarrow> False | Inr r \<Rightarrow> True)"

definition frame_yield :: "env \<Rightarrow> string option \<Rightarrow> WSMessage \<Rightarrow> json option" where
  "frame_yield E target_event_type msg =
     (case on_message E target_event_type msg of Inl e \<Rightarrow> None | Inr r \<Rightarrow> r)"

section \<open>Sample inputs\<close>

text \<open>
  Excerpts of the library functions, for the examples only: \<^verbatim>\<open>dateutil.parser.parse\<close> and
  \<^verbatim>\<open>json.loads\<close> on the few strings the examples use (every other string the examples
  hand them is one they reject), with the clock counting seconds since the epoch.
\<close>

definition sample_parsedate :: "string \<Rightarrow> exn + datetime" where
  "sample_parsedate v =
     (if v = ''Thu, 01 Jan 1970 00:01:40 GMT'' then Inr (Aware 100)
      else if v = ''Thu, 01 Jan 1970 00:03:20 GMT'' then Inr (Aware 200)
      else if v = ''1970-01-01 00:01:40'' then Inr (Naive 100)
      else Inl (LibraryError ''ParserError''))"

definition bq :: string where
  "bq = [CHR 0x5C, CHR 0x22]"

definition doc_filters_changed :: string where
  \<open>doc_filters_changed = ''{"event":"filters_changed"}''\<close>

definition doc_mention :: string where
  \<open>doc_mention = ''{"type":"mention"}''\<close>

definition doc_favourite :: string where
  \<open>doc_favourite = ''{"type":"favourite"}''\<close>

definition frame_of :: "string \<Rightarrow> string \<Rightarrow> string" where
  \<open>frame_of ev payload = ''{"event":"'' @ ev @ ''","payload":"'' @ payload @ ''"}''\<close>

definition escaped_mention :: string where
  \<open>escaped_mention = ''{'' @ bq @ ''type'' @ bq @ '':'' @ bq @ ''mention'' @ bq @ ''}''\<close>

definition escaped_favourite :: string where
  \<open>escaped_favourite = ''{'' @ bq @ ''type'' @ bq @ '':'' @ bq @ ''favourite'' @ bq @ ''}''\<close>

definition envelope :: "string \<Rightarrow> string \<Rightarrow> json" where
  "envelope ev payload = JObj [(''event'', JStr ev), (''payload'', JStr payload)]"

definition sample_loads :: "string \<Rightarrow> json option" where
  "sample_loads =
     map_of
       [(doc_filters_changed, JObj [(''event'', JStr ''filters_changed'')]),
        (doc_mention, JObj [(''type'', JStr ''mention'')]),
        (doc_favourite, JObj [(''type'', JStr ''favourite'')]),
        (''7'', JNum 7),
        (frame_of ''notification'' escaped_mention, envelope ''notification'' doc_mention),
        (frame_of ''notification'' escaped_favourite, envelope ''notification'' doc_favourite),
        (frame_of ''update'' ''7'', envelope ''update'' ''7''),
        (frame_of ''notification'' ''oops'', envelope ''notification'' ''oops'')]"

text \<open>
  Frames of one connection: a mention, a status update, a binary frame, a change of
  filters and a favourite.
\<close>

definition sample_frames :: "WSMessage list" where
  "sample_frames =
     [WSMessage TEXT (frame_of ''notification'' escaped_mention),
      WSMessage TEXT (frame_of ''update'' ''7''),
      WSMessage BINARY ''7'',
      WSMessage TEXT doc_filters_changed,
      WSMessage TEXT (frame_of ''notification'' escaped_favourite)]"

text \<open>
  A server that answers the \<open>n\<close>-th request with the \<open>n\<close>-th entry of a script and refuses
  connections after that, a websocket that delivers the given frames, and the stack of a
  caller near its bottom.
\<close>

definition sample_env :: "outcome list \<Rightarrow> WSMessage list \<Rightarrow> env" where
  "sample_env script frames =
     \<lparr>stack_room = 492,
      http_request = (\<lambda>n rq. if n < length script then script ! n
                               else Failed (LibraryError ''ClientConnectionError'')),
      parsedate = sample_parsedate,
      loads = sample_loads,
      ws_connect = (\<lambda>u. Inr frames),
      url_host = (\<lambda>u. Some ''example.test''),
      host_denied = (\<lambda>h. False)\<rparr>"

definition sample_client :: client where
  "sample_client = \<lparr>api_base_url = ''https://example.test'', access_token = ''abc''\<rparr>"

definition sample_get :: request_args where
  "sample_get = \<lparr>meth = ''GET'', url = ''https://example.test/api/v1/timelines/home'', kwargs = []\<rparr>"

definition sample_verify :: request_args where
  "sample_verify =
     \<lparr>meth = ''GET'', url = ''https://example.test/api/v1/accounts/verify_credentials'',
      kwargs = []\<rparr>"


definition ok_response :: "int \<Rightarrow> json \<Rightarrow> response" where
  "ok_response code body = \<lparr>status = code, headers = Map.empty, json_body = Inr body\<rparr>"

definition limited_response :: "string \<Rightarrow> string option \<Rightarrow> response" where
  "limited_response remaining reset =
     \<lparr>status = 200,
      headers = (\<lambda>name. if name = ''X-RateLimit-Remaining'' then Some remaining
                        else if name = ''X-RateLimit-Reset'' then reset else None),
      json_body = Inr JNull\<rparr>"

section \<open>The rate-limit layer: proofs\<close>

declare do_enter.simps [simp del]

lemma sent_count_send [simp]: "sent_count (send rq s) = Suc (sent_count s)"
  by (simp add: sent_count_def send_def)

lemma sent_count_aexit [simp]: "sent_count (aexit s) = sent_count s"
  by (simp add: sent_count_def aexit_def)

lemma sent_count_anyio_sleep [simp]: "sent_count (anyio_sleep d s) = sent_count s"
  by (simp add: sent_count_def anyio_sleep_def)

text \<open>
  One unfolding of the loop: with a limited response whose reset header names an instant
  the call goes on, after the sleep and the release, as the nested call if there is room
  for it and fails with \<^verbatim>\<open>RecursionError\<close> if there is none; in every other case it ends
  after the one request.
\<close>

lemma do_enter_retry:
  assumes "http_request E (sent_count s) rq = Response resp" "limited resp"
    and "reset_instant E resp = Some t"
  shows "do_enter E rq (Suc room) s
           = do_enter E rq room (aexit (anyio_sleep (t - now s) (send rq s)))"
    and "do_enter E rq 0 s
           = (Inl RecursionError, aexit (anyio_sleep (t - now s) (send rq s)))"
  using assms
  by (subst do_enter.simps,
      auto simp: reset_instant_def sleep_until_def send_def
        split: option.splits sum.splits datetime.splits)+

lemma do_enter_no_retry:
  assumes "http_request E (sent_count s) rq = Response resp"
    and "\<not> limited resp \<or> reset_instant E resp = None"
  shows "\<exists>r. do_enter E rq room s = (r, send rq s)"
  using assms
  by (subst do_enter.simps)
     (auto simp: reset_instant_def sleep_until_def split: option.splits sum.splits datetime.splits)

lemma do_enter_unlimited:
  assumes "http_request E (sent_count s) rq = Response resp" "\<not> limited resp"
  shows "do_enter E rq room s = (Inr resp, send rq s)"
  using assms by (subst do_enter.simps) simp

text \<open>Whatever the loop returns, it has sent a request and has not touched the cached id.\<close>

lemma do_enter_invariant:
  "sent_count s < sent_count (snd (do_enter E rq room s))
   \<and> logged_in_id (snd (do_enter E rq room s)) = logged_in_id s"
proof (induction room arbitrary: s)
  case 0
  show ?case
    by (subst (1 2) do_enter.simps)
       (auto simp: sleep_until_def send_def aexit_def anyio_sleep_def sent_count_def
          split: outcome.splits option.splits sum.splits datetime.splits)
next
  case (Suc room)
  have step: "sent_count s < sent_count (snd (do_enter E rq room (aexit (anyio_sleep d (send rq s)))))
      \<and> logged_in_id (snd (do_enter E rq room (aexit (anyio_sleep d (send rq s))))) = logged_in_id s"
    for d
  proof -
    have "logged_in_id (aexit (anyio_sleep d (send rq s))) = logged_in_id s"
      by (simp add: aexit_def anyio_sleep_def send_def)
    with Suc.IH [of "aexit (anyio_sleep d (send rq s))"] show ?thesis by simp
  qed
  have base: "logged_in_id (send rq s) = logged_in_id s"
    by (simp add: send_def)
  show ?case
    by (subst (1 2) do_enter.simps)
       (auto simp: sleep_until_def step base
          split: outcome.splits option.splits sum.splits datetime.splits)
qed

lemma aenter_invariant:
  "sent_count s < sent_count (snd (aenter E rq s))
   \<and> logged_in_id (snd (aenter E rq s)) = logged_in_id s"
  by (simp add: aenter_def do_enter_invariant)





text \<open>
  \<^bold>\<open>C1\<close> (as amended). For the response to a request sent through the rate-limit layer: the
  request is retried if and only if \<^verbatim>\<open>X-RateLimit-Remaining\<close> is \<^verbatim>\<open>"0"\<close> or \<^verbatim>\<open>"1"\<close> and the
  \<^verbatim>\<open>X-RateLimit-Reset\<close> header is present and parses to a timezone-aware date. When the
  remaining header is absent or has any other value, the first response is returned at
  once: the only effect is the one request, so nothing is slept and the clock is untouched.
\<close>

theorem retried_iff:
  assumes "http_request E (sent_count s) rq = Response resp"
  shows "(retried E rq s \<longleftrightarrow> limited resp \<and> reset_instant E resp \<noteq> None)
       \<and> (\<not> limited resp \<longrightarrow> aenter E rq s = (Inr resp, send rq s))"
proof (cases "limited resp \<and> reset_instant E resp \<noteq> None")
  case True
  then obtain t where t: "reset_instant E resp = Some t" by auto
  let ?s2 = "aexit (anyio_sleep (t - now s) (send rq s))"
  have eq: "aenter E rq s = do_enter E rq (stack_room E) ?s2"
    unfolding aenter_def using do_enter_retry(1) [OF assms _ t] True by simp
  from do_enter_invariant [of ?s2 E rq "stack_room E"] have "retried E rq s"
    by (simp add: retried_def eq)
  with True show ?thesis by simp
next
  case False
  then have "\<not> limited resp \<or> reset_instant E resp = None" by auto
  from do_enter_no_retry [OF assms this]
  obtain r where "aenter E rq s = (r, send rq s)"
    unfolding aenter_def ..
  then have "\<not> retried E rq s" by (simp add: retried_def)
  with False do_enter_unlimited [OF assms] show ?thesis by (auto simp: aenter_def)
qed


text \<open>Unfolding the sample inputs.\<close>

lemmas sample_defs =
  sample_env_def sample_get_def sample_client_def ok_response_def limited_response_def
  sample_parsedate_def initial_def sent_count_def send_def aexit_def anyio_sleep_def
  sleep_until_def limited_def reset_instant_def stale_def bodies_def aenter_def


theorem retried_iff_witness:
  "retried
     (sample_env [Response (limited_response ''1'' (Some ''Thu, 01 Jan 1970 00:01:40 GMT'')),
                  Response (ok_response 200 JNull)] [])
     sample_get (initial 0)"
proof -
  let ?r = "limited_response ''1'' (Some ''Thu, 01 Jan 1970 00:01:40 GMT'')"
  let ?E = "sample_env [Response ?r, Response (ok_response 200 JNull)] []"
  have h: "http_request ?E (sent_count (initial 0)) sample_get = Response ?r"
    by (simp add: sample_defs)
  have "limited ?r \<and> reset_instant ?E ?r \<noteq> None"
    by (simp add: sample_defs)
  with retried_iff [OF h] show ?thesis by simp
qed

theorem retried_iff_counterexample:
  "http_request (sample_env [Response (limited_response ''0'' None)] [])
       (sent_count (initial 0)) sample_get = Response (limited_response ''0'' None)
   \<and> \<not> (retried (sample_env [Response (limited_response ''0'' None)] []) sample_get (initial 0)
          \<longleftrightarrow> limited (limited_response ''0'' None))"
  by (simp add: retried_def do_enter.simps sample_defs)



section \<open>Pleroma.request: proofs\<close>

text \<open>
  Past the blocklist, \<^verbatim>\<open>request\<close> passes on what \<^verbatim>\<open>__aenter__\<close> raises, and otherwise judges
  the response and releases it.
\<close>

lemma request_raises:
  assumes "url_host E (api_base_url c) = Some h" "\<not> host_denied E h"
    and "aenter E \<lparr>meth = m, url = api_base_url c @ path, kwargs = kw\<rparr> s = (Inl e, s')"
  shows "request E c m path kw s = (Inl e, s')"
  using assms by (simp add: request_def)

lemma request_returns:
  assumes "url_host E (api_base_url c) = Some h" "\<not> host_denied E h"
    and "aenter E \<lparr>meth = m, url = api_base_url c @ path, kwargs = kw\<rparr> s = (Inr resp, s')"
  shows "request E c m path kw s = (on_response resp, aexit s')"
  using assms by (simp add: request_def)

text \<open>
  \<^bold>\<open>C4\<close> (as amended). For a response whose \<^verbatim>\<open>X-RateLimit-Remaining\<close> header is \<^verbatim>\<open>"0"\<close> or \<^verbatim>\<open>"1"\<close>:
  when the \<^verbatim>\<open>X-RateLimit-Reset\<close> header is missing the call fails with \<^verbatim>\<open>KeyError\<close>, and when
  the date parser rejects its value the call fails with the parser's own exception. Both
  leave \<^verbatim>\<open>__aenter__\<close> and \<^verbatim>\<open>Pleroma.request\<close> unchanged, after the one request, with nothing
  slept and no retry; neither is turned into \<^verbatim>\<open>BadResponse\<close>.
\<close>

theorem reset_unusable:
  assumes "url_host E (api_base_url c) = Some h" and "\<not> host_denied E h"
    and "rq = \<lparr>meth = m, url = api_base_url c @ path, kwargs = kw\<rparr>"
    and "http_request E (sent_count s) rq = Response resp" and "limited resp"
  shows "(headers resp ''X-RateLimit-Reset'' = None \<longrightarrow>
            aenter E rq s = (Inl (KeyError ''X-RateLimit-Reset''), send rq s)
          \<and> request E c m path kw s = (Inl (KeyError ''X-RateLimit-Reset''), send rq s))
       \<and> (\<forall>v e. headers resp ''X-RateLimit-Reset'' = Some v \<and> parsedate E v = Inl e \<longrightarrow>
            aenter E rq s = (Inl e, send rq s)
          \<and> request E c m path kw s = (Inl e, send rq s))"
proof -
  have a: "aenter E rq s = (Inl (KeyError ''X-RateLimit-Reset''), send rq s)"
    if "headers resp ''X-RateLimit-Reset'' = None"
    unfolding aenter_def using assms(4,5) that by (subst do_enter.simps) simp
  have b: "aenter E rq s = (Inl e, send rq s)"
    if "headers resp ''X-RateLimit-Reset'' = Some v" "parsedate E v = Inl e" for v e
    unfolding aenter_def using assms(4,5) that by (subst do_enter.simps) simp
  show ?thesis
    using a b request_raises [OF assms(1,2), of m path kw s] unfolding assms(3) by auto
qed

text \<open>
  \<^bold>\<open>C6\<close>. For an exchange that \<^verbatim>\<open>request\<close> completes with the response \<open>resp\<close>: with status 400
  the call fails with \<^verbatim>\<open>BadRequest\<close> carrying the \<^verbatim>\<open>error\<close> field of the JSON body, and with
  status 500 it fails with \<^verbatim>\<open>BadResponse\<close> carrying the whole JSON body.
\<close>

theorem request_400_500:
  assumes "url_host E (api_base_url c) = Some h" and "\<not> host_denied E h"
    and "aenter E \<lparr>meth = m, url = api_base_url c @ path, kwargs = kw\<rparr> s = (Inr resp, s')"
  shows "(status resp = 400 \<longrightarrow>
            (\<forall>body msg. json_body resp = Inr body \<and> getitem body ''error'' = Inr msg \<longrightarrow>
               request E c m path kw s = (Inl (BadRequest msg), aexit s')))
       \<and> (status resp = 500 \<longrightarrow>
            (\<forall>body. json_body resp = Inr body \<longrightarrow>
               request E c m path kw s = (Inl (BadResponse body), aexit s')))"
  using request_returns [OF assms] by (auto simp: on_response_def)

text \<open>
  \<^bold>\<open>C7\<close>. For a response with any status other than 400 and 500, \<^verbatim>\<open>request\<close> returns what
  \<^verbatim>\<open>resp.json()\<close> gives, the parsed body, as its result: the status raises nothing.
\<close>

theorem request_other_status:
  assumes "url_host E (api_base_url c) = Some h" and "\<not> host_denied E h"
    and "aenter E \<lparr>meth = m, url = api_base_url c @ path, kwargs = kw\<rparr> s = (Inr resp, s')"
    and "status resp \<noteq> 400" and "status resp \<noteq> 500"
  shows "request E c m path kw s = (json_body resp, aexit s')"
  using request_returns [OF assms(1-3)] assms(4,5) by (simp add: on_response_def)

text \<open>
  Sample runs: a limited response without a reset header, one whose reset header the
  parser rejects, and responses with the statuses 400, 500 and 404.
\<close>

theorem reset_unusable_counterexample:
  "limited (limited_response ''1'' None)
   \<and> headers (limited_response ''1'' None) ''X-RateLimit-Reset'' = None
   \<and> http_request (sample_env [Response (limited_response ''1'' None)] []) 0 sample_get
       = Response (limited_response ''1'' None)
   \<and> request (sample_env [Response (limited_response ''1'' None)] []) sample_client
        ''GET'' ''/api/v1/timelines/home'' [] (initial 0)
       = (Inl (KeyError ''X-RateLimit-Reset''), send sample_get (initial 0))
   \<and> \<not> is_BadResponse (KeyError ''X-RateLimit-Reset'')"
  by (simp add: request_def do_enter.simps sample_defs)

theorem reset_unusable_witness:
  "request (sample_env [Response (limited_response ''0'' (Some ''soon''))] []) sample_client
        ''GET'' ''/api/v1/timelines/home'' [] (initial 0)
       = (Inl (LibraryError ''ParserError''), send sample_get (initial 0))"
proof -
  let ?r = "limited_response ''0'' (Some ''soon'')"
  let ?E = "sample_env [Response ?r] []"
  have h1: "url_host ?E (api_base_url sample_client) = Some ''example.test''"
    and h2: "\<not> host_denied ?E ''example.test''"
    and h3: "sample_get = \<lparr>meth = ''GET'',
        url = api_base_url sample_client @ ''/api/v1/timelines/home'', kwargs = []\<rparr>"
    and h4: "http_request ?E (sent_count (initial 0)) sample_get = Response ?r"
    and h5: "limited ?r"
    by (simp_all add: sample_defs)
  have "headers ?r ''X-RateLimit-Reset'' = Some ''soon''
      \<and> parsedate ?E ''soon'' = Inl (LibraryError ''ParserError'')"
    by (simp add: sample_defs)
  with reset_unusable [OF h1 h2 h3 h4 h5] show ?thesis by blast
qed

theorem request_400_500_witness:
  "request (sample_env [Response (ok_response 400 (JObj [(''error'', JStr ''Record not found'')]))] [])
      sample_client ''GET'' ''/api/v1/timelines/home'' [] (initial 0)
     = (Inl (BadRequest (JStr ''Record not found'')), aexit (send sample_get (initial 0)))
   \<and> request (sample_env [Response (ok_response 500 (JObj [(''error'', JStr ''boom'')]))] [])
      sample_client ''GET'' ''/api/v1/timelines/home'' [] (initial 0)
     = (Inl (BadResponse (JObj [(''error'', JStr ''boom'')])), aexit (send sample_get (initial 0)))"
proof -
  let ?r4 = "ok_response 400 (JObj [(''error'', JStr ''Record not found'')])"
  let ?r5 = "ok_response 500 (JObj [(''error'', JStr ''boom'')])"
  let ?E4 = "sample_env [Response ?r4] []"
  let ?E5 = "sample_env [Response ?r5] []"
  let ?rq = "\<lparr>meth = ''GET'', url = api_base_url sample_client @ ''/api/v1/timelines/home'',
               kwargs = []\<rparr>"
  have h4: "url_host ?E4 (api_base_url sample_client) = Some ''example.test''"
      "\<not> host_denied ?E4 ''example.test''"
      "aenter ?E4 ?rq (initial 0) = (Inr ?r4, send sample_get (initial 0))"
    by (simp_all add: do_enter.simps sample_defs)
  have h5: "url_host ?E5 (api_base_url sample_client) = Some ''example.test''"
      "\<not> host_denied ?E5 ''example.test''"
      "aenter ?E5 ?rq (initial 0) = (Inr ?r5, send sample_get (initial 0))"
    by (simp_all add: do_enter.simps sample_defs)
  have b4: "status ?r4 = 400 \<and> json_body ?r4 = Inr (JObj [(''error'', JStr ''Record not found'')])
      \<and> getitem (JObj [(''error'', JStr ''Record not found'')]) ''error'' = Inr (JStr ''Record not found'')"
    by (simp add: ok_response_def)
  have b5: "status ?r5 = 500 \<and> json_body ?r5 = Inr (JObj [(''error'', JStr ''boom'')])"
    by (simp add: ok_response_def)
  from request_400_500 [OF h4] b4 request_400_500 [OF h5] b5 show ?thesis by blast
qed

theorem request_other_status_witness:
  "request (sample_env [Response (ok_response 404 (JObj [(''error'', JStr ''Record not found'')]))] [])
      sample_client ''GET'' ''/api/v1/timelines/home'' [] (initial 0)
     = (Inr (JObj [(''error'', JStr ''Record not found'')]), aexit (send sample_get (initial 0)))"
proof -
  let ?r = "ok_response 404 (JObj [(''error'', JStr ''Record not found'')])"
  let ?E = "sample_env [Response ?r] []"
  let ?rq = "\<lparr>meth = ''GET'', url = api_base_url sample_client @ ''/api/v1/timelines/home'',
               kwargs = []\<rparr>"
  have h: "url_host ?E (api_base_url sample_client) = Some ''example.test''"
      "\<not> host_denied ?E ''example.test''"
      "aenter ?E ?rq (initial 0) = (Inr ?r, send sample_get (initial 0))"
      "status ?r \<noteq> 400" "status ?r \<noteq> 500"
    by (simp_all add: do_enter.simps sample_defs)
  from request_other_status [OF h] show ?thesis by (simp add: ok_response_def)
qed

section \<open>The cached account id: proofs\<close>

text \<open>No request writes the cached id.\<close>

lemma request_logged_in_id:
  assumes "request E c m path kw s = (r, s')"
  shows "logged_in_id s' = logged_in_id s"
proof (cases "url_host E (api_base_url c)")
  case None
  with assms show ?thesis by (simp add: request_def)
next
  case (Some h)
  show ?thesis
  proof (cases "host_denied E h")
    case True
    with Some assms show ?thesis by (simp add: request_def)
  next
    case False
    let ?rq = "\<lparr>meth = m, url = api_base_url c @ path, kwargs = kw\<rparr>"
    obtain y s2 where y: "aenter E ?rq s = (y, s2)"
      by (cases "aenter E ?rq s")
    from aenter_invariant [of s E ?rq] y have "logged_in_id s2 = logged_in_id s" by simp
    with assms Some False y show ?thesis
      by (auto simp: request_def aexit_def split: sum.splits)
  qed
qed

text \<open>
  \<^bold>\<open>C8\<close> (as amended). Once the cache holds an id, \<^verbatim>\<open>_get_logged_in_id\<close> returns it and
  changes nothing: no request is sent and the id stays, and no request of the client
  writes it either. With the cache empty, a successful \<^verbatim>\<open>verify_credentials\<close> whose answer
  has an \<^verbatim>\<open>id\<close> field stores that field and returns it, and when the field is not null
  every later call returns the stored value from the same state. When the answer is a
  JSON object without an \<^verbatim>\<open>id\<close> field the call fails with \<^verbatim>\<open>LoginFailed\<close> in the state
  \<^verbatim>\<open>verify_credentials\<close> left, so nothing more is sent, and the cache is still empty.
\<close>

theorem logged_in_id_cached:
  "(logged_in_id s \<noteq> JNull \<longrightarrow> get_logged_in_id E c s = (Inr (logged_in_id s), s))
   \<and> (\<forall>r s'. request E c m path kw s = (r, s') \<longrightarrow> logged_in_id s' = logged_in_id s)
   \<and> (logged_in_id s = JNull \<longrightarrow>
        (\<forall>me s' v. verify_credentials E c s = (Inr me, s') \<and> getitem me ''id'' = Inr v \<longrightarrow>
           get_logged_in_id E c s = (Inr v, s'\<lparr>logged_in_id := v\<rparr>)
           \<and> (v \<noteq> JNull \<longrightarrow>
                get_logged_in_id E c (s'\<lparr>logged_in_id := v\<rparr>)
                  = (Inr v, s'\<lparr>logged_in_id := v\<rparr>))))
   \<and> (logged_in_id s = JNull \<longrightarrow>
        (\<forall>kvs s'. verify_credentials E c s = (Inr (JObj kvs), s') \<and> map_of kvs ''id'' = None \<longrightarrow>
           get_logged_in_id E c s = (Inl (LoginFailed (JObj kvs)), s')
           \<and> logged_in_id s' = JNull))"
proof (intro conjI impI allI)
  assume "logged_in_id s \<noteq> JNull"
  then show "get_logged_in_id E c s = (Inr (logged_in_id s), s)"
    by (simp add: get_logged_in_id_def)
next
  fix r s' assume "request E c m path kw s = (r, s')"
  then show "logged_in_id s' = logged_in_id s" by (rule request_logged_in_id)
next
  fix me s' v
  assume "logged_in_id s = JNull"
    and "verify_credentials E c s = (Inr me, s') \<and> getitem me ''id'' = Inr v"
  then show "get_logged_in_id E c s = (Inr v, s'\<lparr>logged_in_id := v\<rparr>)"
    by (simp add: get_logged_in_id_def)
next
  fix me s' v
  assume "v \<noteq> JNull"
  then show "get_logged_in_id E c (s'\<lparr>logged_in_id := v\<rparr>) = (Inr v, s'\<lparr>logged_in_id := v\<rparr>)"
    by (simp add: get_logged_in_id_def)
next
  fix kvs s'
  assume "logged_in_id s = JNull"
    and "verify_credentials E c s = (Inr (JObj kvs), s') \<and> map_of kvs ''id'' = None"
  then show "get_logged_in_id E c s = (Inl (LoginFailed (JObj kvs)), s')"
    by (simp add: get_logged_in_id_def)
next
  fix kvs s'
  assume "logged_in_id s = JNull"
    and "verify_credentials E c s = (Inr (JObj kvs), s') \<and> map_of kvs ''id'' = None"
  then show "logged_in_id s' = JNull"
    using request_logged_in_id [of E c "''GET''" "''/api/v1/accounts/verify_credentials''" "[]" s]
    by (simp add: verify_credentials_def)
qed

text \<open>
  The condition on null is needed. When the server sends \<^verbatim>\<open>{"id": null}\<close> the call succeeds,
  the cache still holds \<^verbatim>\<open>None\<close>, and the next call sends a second request.
\<close>

theorem logged_in_id_cached_counterexample:
  "get_logged_in_id
     (sample_env [Response (ok_response 200 (JObj [(''id'', JNull)])),
                  Response (ok_response 200 (JObj [(''id'', JNull)]))] [])
     sample_client (initial 0)
     = (Inr JNull, aexit (send sample_verify (initial 0)))
   \<and> get_logged_in_id
     (sample_env [Response (ok_response 200 (JObj [(''id'', JNull)])),
                  Response (ok_response 200 (JObj [(''id'', JNull)]))] [])
     sample_client (aexit (send sample_verify (initial 0)))
     = (Inr JNull, aexit (send sample_verify (aexit (send sample_verify (initial 0)))))
   \<and> sent_count (aexit (send sample_verify (initial 0))) = 1
   \<and> sent_count (aexit (send sample_verify (aexit (send sample_verify (initial 0))))) = 2"
  by (simp add: get_logged_in_id_def verify_credentials_def request_def do_enter.simps
      on_response_def sample_verify_def sample_defs)

theorem logged_in_id_cached_witness:
  "get_logged_in_id
     (sample_env [Response (ok_response 200 (JObj [(''id'', JStr ''9'')]))] [])
     sample_client (initial 0)
     = (Inr (JStr ''9''), (aexit (send sample_verify (initial 0)))\<lparr>logged_in_id := JStr ''9''\<rparr>)
   \<and> get_logged_in_id
     (sample_env [Response (ok_response 200 (JObj [(''id'', JStr ''9'')]))] [])
     sample_client ((aexit (send sample_verify (initial 0)))\<lparr>logged_in_id := JStr ''9''\<rparr>)
     = (Inr (JStr ''9''), (aexit (send sample_verify (initial 0)))\<lparr>logged_in_id := JStr ''9''\<rparr>)
   \<and> get_logged_in_id
     (sample_env [Response (ok_response 200 (JObj [(''acct'', JStr ''io'')]))] [])
     sample_client (initial 0)
     = (Inl (LoginFailed (JObj [(''acct'', JStr ''io'')])), aexit (send sample_verify (initial 0)))
   \<and> logged_in_id (aexit (send sample_verify (initial 0))) = JNull"
proof -
  let ?me = "JObj [(''id'', JStr ''9'')]"
  let ?E = "sample_env [Response (ok_response 200 ?me)] []"
  let ?kvs = "[(''acct'', JStr ''io'')]"
  let ?F = "sample_env [Response (ok_response 200 (JObj ?kvs))] []"
  let ?s1 = "aexit (send sample_verify (initial 0))"
  have e0: "logged_in_id (initial 0) = JNull" by (simp add: initial_def)
  have e1: "verify_credentials ?E sample_client (initial 0) = (Inr ?me, ?s1)
      \<and> getitem ?me ''id'' = Inr (JStr ''9'')"
    by (simp add: verify_credentials_def request_def do_enter.simps on_response_def
        sample_verify_def sample_defs)
  have e2: "JStr ''9'' \<noteq> JNull" by simp
  have f1: "verify_credentials ?F sample_client (initial 0) = (Inr (JObj ?kvs), ?s1)
      \<and> map_of ?kvs ''id'' = None"
    by (simp add: verify_credentials_def request_def do_enter.simps on_response_def
        sample_verify_def sample_defs)
  from logged_in_id_cached [of "initial 0" ?E sample_client] e0 e1 e2
  have a: "get_logged_in_id ?E sample_client (initial 0)
             = (Inr (JStr ''9''), ?s1\<lparr>logged_in_id := JStr ''9''\<rparr>)
         \<and> get_logged_in_id ?E sample_client (?s1\<lparr>logged_in_id := JStr ''9''\<rparr>)
             = (Inr (JStr ''9''), ?s1\<lparr>logged_in_id := JStr ''9''\<rparr>)"
    by blast
  from logged_in_id_cached [of "initial 0" ?F sample_client] e0 f1
  have b: "get_logged_in_id ?F sample_client (initial 0)
             = (Inl (LoginFailed (JObj ?kvs)), ?s1)
         \<and> logged_in_id ?s1 = JNull"
    by blast
  from a b show ?thesis by simp
qed

section \<open>Posting: proofs\<close>

lemma map_of_setitem:
  "map_of (setitem kvs k v) k' = (if k' = k then Some v else map_of kvs k')"
  by (induction kvs k v rule: setitem.induct) auto

text \<open>
  \<^bold>\<open>C10\<close>. Whenever \<^verbatim>\<open>post\<close> gets past the visibility check, the dict it sends as \<^verbatim>\<open>data\<close>,
  with or without media ids, has a \<^verbatim>\<open>spoiler_text\<close> field exactly when \<^verbatim>\<open>cw\<close> is truthy, and
  the field is then \<^verbatim>\<open>cw\<close>; so an empty string is treated like \<^verbatim>\<open>None\<close>. This dict is the
  payload of the request to \<^verbatim>\<open>/api/v1/statuses\<close>.
\<close>

theorem post_spoiler_text:
  assumes "post_data content in_reply_to_id cw visibility = Inr data"
  shows "map_of data ''spoiler_text'' = (if truthy cw then Some cw else None)
       \<and> map_of (setitem data ''media_ids[]'' (JArr ids)) ''spoiler_text''
           = (if truthy cw then Some cw else None)
       \<and> post E c content in_reply_to_id cw visibility None s
           = request E c ''POST'' ''/api/v1/statuses'' [(''data'', Val (JObj data))] s
       \<and> (\<forall>s'. upload_all s = (Inr ids, s') \<and> JNull \<notin> set ids \<longrightarrow>
            post E c content in_reply_to_id cw visibility (Some upload_all) s
              = request E c ''POST'' ''/api/v1/statuses''
                  [(''data'', Val (JObj (setitem data ''media_ids[]'' (JArr ids))))] s')"
proof -
  have sp: "map_of data ''spoiler_text'' = (if truthy cw then Some cw else None)"
    using assms
    by (auto simp: post_data_def Let_def map_of_setitem split: if_splits option.splits)
  then have "map_of (setitem data ''media_ids[]'' (JArr ids)) ''spoiler_text''
           = (if truthy cw then Some cw else None)"
    by (simp add: map_of_setitem)
  with sp assms show ?thesis by (simp add: post_def)
qed

theorem post_spoiler_text_witness:
  "post_data (JStr ''hello'') JNull (JStr []) None = Inr [(''status'', JStr ''hello'')]
   \<and> map_of [(''status'', JStr ''hello'')] ''spoiler_text'' = None
   \<and> post_data (JStr ''hello'') JNull JNull None = Inr [(''status'', JStr ''hello'')]
   \<and> post_data (JStr ''hello'') JNull (JStr ''food'') (Some ''public'')
       = Inr [(''status'', JStr ''hello''), (''visibility'', JStr ''public''),
              (''spoiler_text'', JStr ''food'')]
   \<and> map_of [(''status'', JStr ''hello''), (''visibility'', JStr ''public''),
              (''spoiler_text'', JStr ''food'')] ''spoiler_text'' = Some (JStr ''food'')"
proof -
  have a: "post_data (JStr ''hello'') JNull (JStr []) None = Inr [(''status'', JStr ''hello'')]"
    and b: "post_data (JStr ''hello'') JNull JNull None = Inr [(''status'', JStr ''hello'')]"
    and c: "post_data (JStr ''hello'') JNull (JStr ''food'') (Some ''public'')
       = Inr [(''status'', JStr ''hello''), (''visibility'', JStr ''public''),
              (''spoiler_text'', JStr ''food'')]"
    by (simp_all add: post_data_def visibilities_def)
  from post_spoiler_text [OF a] post_spoiler_text [OF c] a b c show ?thesis by simp
qed

section \<open>Streaming: proofs\<close>

text \<open>
  A loop whose body never raises yields, in the order of its items, what the body yields
  for each; a loop whose body raises at an item stops there with what it yielded before.
\<close>

lemma async_for_ok:
  assumes "\<forall>x\<in>set xs. \<exists>r. body x = Inr r"
  shows "async_for body xs fin
           = (List.map_filter (\<lambda>x. case body x of Inl e \<Rightarrow> None | Inr r \<Rightarrow> r) xs, fin)"
  using assms
proof (induction xs)
  case Nil
  then show ?case by (simp add: List.map_filter_simps)
next
  case (Cons x xs)
  from Cons.prems obtain r where r: "body x = Inr r" by auto
  from Cons have IH: "async_for body xs fin
           = (List.map_filter (\<lambda>x. case body x of Inl e \<Rightarrow> None | Inr r \<Rightarrow> r) xs, fin)"
    by simp
  show ?case by (cases r) (simp_all add: r IH List.map_filter_simps)
qed


text \<open>
  The two derived generators: one passes everything on, and one keeps the mentions as long
  as every element it is given has a \<^verbatim>\<open>type\<close> field.
\<close>

lemma async_for_pass: "async_for (\<lambda>x. Inr (Some x)) xs fin = (xs, fin)"
  by (induction xs) simp_all

lemma async_for_mentions:
  assumes "\<forall>n\<in>set notifs. has_type n"
  shows "async_for mention_body notifs fin = (filter is_mention notifs, fin)"
  using assms
proof (induction notifs)
  case Nil
  then show ?case by simp
next
  case (Cons n notifs)
  then obtain t where t: "getitem n ''type'' = Inr t"
    by (auto simp: has_type_def split: sum.splits)
  from Cons have IH: "async_for mention_body notifs fin = (filter is_mention notifs, fin)"
    by simp
  have "mention_body n = (if t = JStr ''mention'' then Inr (Some n) else Inr None)"
    by (simp add: mention_body_def t)
  moreover have "is_mention n \<longleftrightarrow> t = JStr ''mention''"
    by (simp add: is_mention_def t)
  ultimately show ?case by (simp add: IH)
qed

lemma stream_notifications_is_stream:
  "stream_notifications E c = stream E c ''user:notification'' (Some ''notification'')"
  by (simp add: stream_notifications_def async_for_pass split: prod.splits)

lemma stream_mentions_typed:
  assumes "stream_notifications E c = (notifs, fin)" and "\<forall>n\<in>set notifs. has_type n"
  shows "stream_mentions E c = (filter is_mention notifs, fin)"
  using assms by (simp add: stream_mentions_def async_for_mentions)

text \<open>
  \<^bold>\<open>C3\<close>. For a text frame whose text decodes to \<open>ev\<close> with the \<^verbatim>\<open>event\<close> field \<open>t\<close>: when \<open>t\<close>
  is \<^verbatim>\<open>"filters_changed"\<close> the whole of \<open>ev\<close> is yielded; otherwise, when no target event
  type is given or \<open>t\<close> is the target, the string in the \<^verbatim>\<open>payload\<close> field is decoded as a JSON
  document of its own and that value is yielded; otherwise nothing is yielded. And for the
  frames of a connection, none of which makes the loop raise, \<^verbatim>\<open>stream\<close> yields what the
  frames yield one by one, in the order of their arrival.
\<close>

theorem stream_frames:
  "(\<forall>ev t. loads E txt = Some ev \<and> getitem ev ''event'' = Inr t \<longrightarrow>
      (t = JStr ''filters_changed'' \<longrightarrow>
         on_message E target (WSMessage TEXT txt) = Inr (Some ev))
    \<and> (t \<noteq> JStr ''filters_changed'' \<and> (target = None \<or> target = Some tt \<and> t = JStr tt) \<longrightarrow>
         (\<forall>p v. getitem ev ''payload'' = Inr (JStr p) \<and> loads E p = Some v \<longrightarrow>
            on_message E target (WSMessage TEXT txt) = Inr (Some v)))
    \<and> (t \<noteq> JStr ''filters_changed'' \<and> target = Some tt \<and> t \<noteq> JStr tt \<longrightarrow>
         on_message E target (WSMessage TEXT txt) = Inr None))
   \<and> (ws_connect E (stream_url c name) = Inr msgs \<and> (\<forall>m\<in>set msgs. frame_ok E target m) \<longrightarrow>
        stream E c name target = (List.map_filter (frame_yield E target) msgs, None))"
proof (intro conjI allI impI)
  fix ev t
  assume "loads E txt = Some ev \<and> getitem ev ''event'' = Inr t" "t = JStr ''filters_changed''"
  then show "on_message E target (WSMessage TEXT txt) = Inr (Some ev)"
    by (simp add: on_message_def)
next
  fix ev t p v
  assume "loads E txt = Some ev \<and> getitem ev ''event'' = Inr t"
    "t \<noteq> JStr ''filters_changed'' \<and> (target = None \<or> target = Some tt \<and> t = JStr tt)"
    "getitem ev ''payload'' = Inr (JStr p) \<and> loads E p = Some v"
  then show "on_message E target (WSMessage TEXT txt) = Inr (Some v)"
    by (auto simp: on_message_def json_loads_def)
next
  fix ev t
  assume "loads E txt = Some ev \<and> getitem ev ''event'' = Inr t"
    "t \<noteq> JStr ''filters_changed'' \<and> target = Some tt \<and> t \<noteq> JStr tt"
  then show "on_message E target (WSMessage TEXT txt) = Inr None"
    by (auto simp: on_message_def)
next
  assume a: "ws_connect E (stream_url c name) = Inr msgs \<and> (\<forall>m\<in>set msgs. frame_ok E target m)"
  have "\<forall>m\<in>set msgs. \<exists>r. on_message E target m = Inr r"
  proof
    fix m assume "m \<in> set msgs"
    with a have "frame_ok E target m" by simp
    then show "\<exists>r. on_message E target m = Inr r"
      by (cases "on_message E target m") (simp_all add: frame_ok_def)
  qed
  from async_for_ok [OF this, of None]
  have "async_for (on_message E target) msgs None
          = (List.map_filter (frame_yield E target) msgs, None)"
    by (simp add: frame_yield_def [abs_def])
  with a show "stream E c name target = (List.map_filter (frame_yield E target) msgs, None)"
    by (simp add: stream_def)
qed


text \<open>The sample documents, decoded once.\<close>

lemmas sample_docs =
  sample_loads_def frame_of_def escaped_mention_def escaped_favourite_def bq_def
  doc_filters_changed_def doc_mention_def doc_favourite_def envelope_def

lemma sample_env_streaming:
  "loads (sample_env script frames) = sample_loads"
  "ws_connect (sample_env script frames) u = Inr frames"
  by (simp_all add: sample_env_def)

lemma sample_loads_values:
  "sample_loads doc_filters_changed = Some (JObj [(''event'', JStr ''filters_changed'')])"
  "sample_loads doc_mention = Some (JObj [(''type'', JStr ''mention'')])"
  "sample_loads doc_favourite = Some (JObj [(''type'', JStr ''favourite'')])"
  "sample_loads ''7'' = Some (JNum 7)"
  "sample_loads (frame_of ''notification'' escaped_mention)
     = Some (JObj [(''event'', JStr ''notification''), (''payload'', JStr doc_mention)])"
  "sample_loads (frame_of ''notification'' escaped_favourite)
     = Some (JObj [(''event'', JStr ''notification''), (''payload'', JStr doc_favourite)])"
  "sample_loads (frame_of ''update'' ''7'')
     = Some (JObj [(''event'', JStr ''update''), (''payload'', JStr ''7'')])"
  "sample_loads (frame_of ''notification'' ''oops'')
     = Some (JObj [(''event'', JStr ''notification''), (''payload'', JStr ''oops'')])"
  "sample_loads ''oops'' = None"
  "sample_loads ''not json'' = None"
  by (simp_all add: sample_docs)

lemmas stream_eval =
  sample_env_streaming sample_loads_values on_message_def json_loads_def frame_ok_def
  frame_yield_def List.map_filter_simps

theorem stream_frames_witness:
  "on_message (sample_env [] sample_frames) (Some ''notification'')
       (WSMessage TEXT doc_filters_changed)
     = Inr (Some (JObj [(''event'', JStr ''filters_changed'')]))
   \<and> on_message (sample_env [] sample_frames) (Some ''notification'')
       (WSMessage TEXT (frame_of ''notification'' escaped_mention))
     = Inr (Some (JObj [(''type'', JStr ''mention'')]))
   \<and> on_message (sample_env [] sample_frames) (Some ''notification'')
       (WSMessage TEXT (frame_of ''update'' ''7''))
     = Inr None
   \<and> stream (sample_env [] sample_frames) sample_client ''user:notification''
       (Some ''notification'')
     = ([JObj [(''type'', JStr ''mention'')],
         JObj [(''event'', JStr ''filters_changed'')],
         JObj [(''type'', JStr ''favourite'')]], None)"
proof -
  let ?E = "sample_env [] sample_frames"
  let ?tgt = "Some ''notification''"
  have c: "ws_connect ?E (stream_url sample_client ''user:notification'') = Inr sample_frames
      \<and> (\<forall>m\<in>set sample_frames. frame_ok ?E ?tgt m)"
    by (simp add: sample_frames_def stream_eval)
  have y: "List.map_filter (frame_yield ?E ?tgt) sample_frames
      = [JObj [(''type'', JStr ''mention'')], JObj [(''event'', JStr ''filters_changed'')],
         JObj [(''type'', JStr ''favourite'')]]"
    by (simp add: sample_frames_def stream_eval)
  have a1: "on_message ?E ?tgt (WSMessage TEXT doc_filters_changed)
      = Inr (Some (JObj [(''event'', JStr ''filters_changed'')]))"
    using stream_frames [of ?E doc_filters_changed ?tgt "''notification''" sample_client
      "''user:notification''" sample_frames]
    by (simp add: sample_env_streaming sample_loads_values)
  have a2: "on_message ?E ?tgt (WSMessage TEXT (frame_of ''notification'' escaped_mention))
      = Inr (Some (JObj [(''type'', JStr ''mention'')]))"
    using stream_frames [of ?E "frame_of ''notification'' escaped_mention" ?tgt
      "''notification''" sample_client "''user:notification''" sample_frames]
    by (simp add: sample_env_streaming sample_loads_values)
  have a3: "on_message ?E ?tgt (WSMessage TEXT (frame_of ''update'' ''7'')) = Inr None"
    using stream_frames [of ?E "frame_of ''update'' ''7''" ?tgt
      "''notification''" sample_client "''user:notification''" sample_frames]
    by (simp add: sample_env_streaming sample_loads_values)
  have a4: "stream ?E sample_client ''user:notification'' ?tgt
      = (List.map_filter (frame_yield ?E ?tgt) sample_frames, None)"
    using stream_frames [of ?E doc_filters_changed ?tgt "''notification''" sample_client
      "''user:notification''" sample_frames] c
    by (simp del: set_simps)
  from a1 a2 a3 a4 y show ?thesis by simp
qed



text \<open>
  \<^bold>\<open>C9\<close>. The code at an input where it departs from the property: a change of filters
  followed by a mention. \<^verbatim>\<open>stream\<close> passes the envelope of a \<^verbatim>\<open>filters_changed\<close> frame on
  whatever the target event type is (line 314) and \<^verbatim>\<open>stream_notifications\<close> yields it, so
  \<^verbatim>\<open>stream_mentions\<close> subscripts it with \<^verbatim>\<open>'type'\<close> (line 326), which it does not have: the
  generator ends with \<^verbatim>\<open>KeyError\<close>, and the mention that \<^verbatim>\<open>stream_notifications\<close> yields
  after it is never yielded.
\<close>

theorem stream_mentions_filters_changed:
  "stream_notifications
     (sample_env [] [WSMessage TEXT doc_filters_changed,
                     WSMessage TEXT (frame_of ''notification'' escaped_mention)])
     sample_client
     = ([JObj [(''event'', JStr ''filters_changed'')], JObj [(''type'', JStr ''mention'')]], None)
   \<and> filter is_mention
       [JObj [(''event'', JStr ''filters_changed'')], JObj [(''type'', JStr ''mention'')]]
     = [JObj [(''type'', JStr ''mention'')]]
   \<and> stream_mentions
     (sample_env [] [WSMessage TEXT doc_filters_changed,
                     WSMessage TEXT (frame_of ''notification'' escaped_mention)])
     sample_client
     = ([], Some (KeyError ''type''))"
  by (simp add: stream_mentions_def stream_notifications_def stream_def mention_body_def
      is_mention_def stream_eval)

end
